theory Spec2Isabelle
  imports Complex_Main "HOL-Library.AList"
begin

section \<open>Conventions of the embedding\<close>

text \<open>
  The Python sources compute with floats; the embedding idealises them as the reals of HOL
  (\<open>**\<close> with a fractional exponent is \<open>powr\<close> on a non-negative base, \<open>np.sqrt\<close> is
  \<open>sqrt\<close>, \<open>np.exp\<close> is \<open>exp\<close>). Python integers are \<open>int\<close>. A dictionary whose
  insertion order or emptiness is observed is an association list; \<open>d.get(k, v)\<close> is
  \<open>dict_get\<close>. Exceptions are values of the type \<open>py_error\<close>, returned on the left
  of a sum.
\<close>

datatype py_error = ZeroDivisionError | KeyError | IndexError | TypeError

definition dict_get :: "('k \<times> 'v) list \<Rightarrow> 'k \<Rightarrow> 'v \<Rightarrow> 'v" where
  "dict_get d k dflt = (case map_of d k of None \<Rightarrow> dflt | Some v \<Rightarrow> v)"

text \<open>Python's \<open>int(x)\<close> on a float truncates towards zero.\<close>

definition py_int :: "real \<Rightarrow> int" where
  "py_int x = (if 0 \<le> x then \<lfloor>x\<rfloor> else \<lceil>x\<rceil>)"

text \<open>Python's \<open>needle in haystack\<close> on strings.\<close>

fun starts_with :: "string \<Rightarrow> string \<Rightarrow> bool" where
  "starts_with [] hay = True"
| "starts_with (c # cs) [] = False"
| "starts_with (c # cs) (h # hs) = (c = h \<and> starts_with cs hs)"

fun str_in :: "string \<Rightarrow> string \<Rightarrow> bool" where
  "str_in needle [] = (needle = [])"
| "str_in needle (h # hs) = (starts_with needle (h # hs) \<or> str_in needle hs)"


section \<open>ClimateChangeModel (src/models/climate\_change\_model.py)\<close>

datatype decade = D2030 | D2040 | D2050

text \<open>One entry of \<open>self.scenarios\<close>: each parameter is a table keyed by decade.\<close>

record scenario_data =
  temperature_increase_tbl :: "decade \<Rightarrow> real"
  precipitation_change_tbl :: "decade \<Rightarrow> real list"
  sea_level_rise_tbl :: "decade \<Rightarrow> real"
  cyclone_intensity_factor_tbl :: "decade \<Rightarrow> real"
  drought_frequency_factor_tbl :: "decade \<Rightarrow> real"
  extreme_rainfall_factor_tbl :: "decade \<Rightarrow> real"

definition by_decade :: "'a \<Rightarrow> 'a \<Rightarrow> 'a \<Rightarrow> decade \<Rightarrow> 'a" where
  "by_decade a b c d = (case d of D2030 \<Rightarrow> a | D2040 \<Rightarrow> b | D2050 \<Rightarrow> c)"

definition RCP45 :: scenario_data where
  "RCP45 = \<lparr>
     temperature_increase_tbl = by_decade 0.8 1.1 1.4,
     precipitation_change_tbl = by_decade
       [0.05, 0.08, 0.04, -0.02] [0.08, 0.12, 0.06, -0.03] [0.10, 0.15, 0.08, -0.05],
     sea_level_rise_tbl = by_decade 0.12 0.22 0.32,
     cyclone_intensity_factor_tbl = by_decade 0.05 0.08 0.12,
     drought_frequency_factor_tbl = by_decade 0.10 0.15 0.20,
     extreme_rainfall_factor_tbl = by_decade 0.07 0.12 0.18 \<rparr>"

definition RCP85 :: scenario_data where
  "RCP85 = \<lparr>
     temperature_increase_tbl = by_decade 1.0 1.6 2.2,
     precipitation_change_tbl = by_decade
       [0.07, 0.11, 0.06, -0.04] [0.12, 0.18, 0.09, -0.08] [0.18, 0.25, 0.12, -0.12],
     sea_level_rise_tbl = by_decade 0.15 0.30 0.45,
     cyclone_intensity_factor_tbl = by_decade 0.08 0.15 0.25,
     drought_frequency_factor_tbl = by_decade 0.15 0.25 0.35,
     extreme_rainfall_factor_tbl = by_decade 0.10 0.20 0.30 \<rparr>"

definition RCP26 :: scenario_data where
  "RCP26 = \<lparr>
     temperature_increase_tbl = by_decade 0.6 0.8 0.9,
     precipitation_change_tbl = by_decade
       [0.03, 0.05, 0.02, -0.01] [0.05, 0.07, 0.03, -0.02] [0.06, 0.08, 0.04, -0.02],
     sea_level_rise_tbl = by_decade 0.10 0.18 0.24,
     cyclone_intensity_factor_tbl = by_decade 0.03 0.05 0.07,
     drought_frequency_factor_tbl = by_decade 0.05 0.08 0.10,
     extreme_rainfall_factor_tbl = by_decade 0.05 0.07 0.09 \<rparr>"

text \<open>\<open>self.scenarios\<close>, in the order the source lists its keys.\<close>

definition scenarios :: "(string \<times> scenario_data) list" where
  "scenarios = [(''RCP4.5'', RCP45), (''RCP8.5'', RCP85), (''RCP2.6'', RCP26)]"

text \<open>
  \<open>if scenario not in self.scenarios: scenario = 'RCP4.5'\<close> followed by
  \<open>self.scenarios[scenario]\<close>. Nothing is logged, raised or returned about the
  replacement.
\<close>

definition resolve_scenario :: "string \<Rightarrow> string" where
  "resolve_scenario scenario =
     (if scenario \<notin> fst ` set scenarios then ''RCP4.5'' else scenario)"

definition scenario_table :: "string \<Rightarrow> scenario_data" where
  "scenario_table scenario = dict_get scenarios (resolve_scenario scenario) RCP45"

record climate_parameters =
  temperature_increase :: real
  sea_level_rise :: real
  precipitation_change :: "real list"
  cyclone_intensity_factor :: real
  drought_frequency_factor :: real
  extreme_rainfall_factor :: real

text \<open>
  The first \<open>if\<close> chain of \<open>get_annual_climate_parameters\<close>: the decade, the previous
  decade (absent in the first branch) and the interpolation factor. The year itself is
  not changed.
\<close>

definition select_decade :: "int \<Rightarrow> decade \<times> decade option \<times> real" where
  "select_decade year =
     (if year \<le> 2030 then (D2030, None, real_of_int (year - 2025) / 5)
      else if year \<le> 2040 then (D2040, Some D2030, real_of_int (year - 2030) / 10)
      else (D2050, Some D2040, real_of_int (year - 2040) / 10))"

text \<open>
  The expression every parameter uses:
  \<open>prev + (decade_value - prev) * interpolation_factor\<close>, with \<open>prev = 0\<close> when the
  decade is 2030.
\<close>

definition interpolate :: "(decade \<Rightarrow> real) \<Rightarrow> decade \<Rightarrow> decade option \<Rightarrow> real \<Rightarrow> real" where
  "interpolate tbl dec prev f =
     (case prev of
        None \<Rightarrow> 0 + (tbl dec - 0) * f
      | Some p \<Rightarrow> tbl p + (tbl dec - tbl p) * f)"

definition interpolate_list ::
  "(decade \<Rightarrow> real list) \<Rightarrow> decade \<Rightarrow> decade option \<Rightarrow> real \<Rightarrow> real list" where
  "interpolate_list tbl dec prev f =
     (case prev of
        None \<Rightarrow> map (\<lambda>(b, d). b + (d - b) * f) (zip [0, 0, 0, 0] (tbl dec))
      | Some p \<Rightarrow> map (\<lambda>(b, d). b + (d - b) * f) (zip (tbl p) (tbl dec)))"

definition get_annual_climate_parameters :: "int \<Rightarrow> string \<Rightarrow> climate_parameters" where
  "get_annual_climate_parameters year scenario =
     (case select_decade year of (dec, prev, f) \<Rightarrow>
        let s = scenario_table scenario in
        \<lparr> temperature_increase = interpolate (temperature_increase_tbl s) dec prev f,
          sea_level_rise = interpolate (sea_level_rise_tbl s) dec prev f,
          precipitation_change = interpolate_list (precipitation_change_tbl s) dec prev f,
          cyclone_intensity_factor = interpolate (cyclone_intensity_factor_tbl s) dec prev f,
          drought_frequency_factor = interpolate (drought_frequency_factor_tbl s) dec prev f,
          extreme_rainfall_factor = interpolate (extreme_rainfall_factor_tbl s) dec prev f \<rparr>)"

text \<open>The anchor values of a table at one decade, as a parameter record.\<close>

definition anchor :: "scenario_data \<Rightarrow> decade \<Rightarrow> climate_parameters" where
  "anchor s d =
     \<lparr> temperature_increase = temperature_increase_tbl s d,
       sea_level_rise = sea_level_rise_tbl s d,
       precipitation_change = precipitation_change_tbl s d,
       cyclone_intensity_factor = cyclone_intensity_factor_tbl s d,
       drought_frequency_factor = drought_frequency_factor_tbl s d,
       extreme_rainfall_factor = extreme_rainfall_factor_tbl s d \<rparr>"

text \<open>\<open>v\<close> lies strictly between \<open>a\<close> and \<open>b\<close> whenever the two differ.\<close>

definition strictly_between :: "real \<Rightarrow> real \<Rightarrow> real \<Rightarrow> bool" where
  "strictly_between a b v \<longleftrightarrow> (a \<noteq> b \<longrightarrow> min a b < v \<and> v < max a b)"

definition params_strictly_between ::
  "climate_parameters \<Rightarrow> climate_parameters \<Rightarrow> climate_parameters \<Rightarrow> bool" where
  "params_strictly_between a b v \<longleftrightarrow>
     strictly_between (temperature_increase a) (temperature_increase b) (temperature_increase v) \<and>
     strictly_between (sea_level_rise a) (sea_level_rise b) (sea_level_rise v) \<and>
     length (precipitation_change v) = length (precipitation_change a) \<and>
     (\<forall>i < length (precipitation_change a).
        strictly_between (precipitation_change a ! i) (precipitation_change b ! i)
          (precipitation_change v ! i)) \<and>
     strictly_between (cyclone_intensity_factor a) (cyclone_intensity_factor b)
       (cyclone_intensity_factor v) \<and>
     strictly_between (drought_frequency_factor a) (drought_frequency_factor b)
       (drought_frequency_factor v) \<and>
     strictly_between (extreme_rainfall_factor a) (extreme_rainfall_factor b)
       (extreme_rainfall_factor v)"


text \<open>
  Linear blend of two parameter records, \<open>a + (b - a) * f\<close> in every component: what
  "interpolate linearly on the fraction elapsed" means for a whole parameter set.
\<close>

definition lerp :: "climate_parameters \<Rightarrow> climate_parameters \<Rightarrow> real \<Rightarrow> climate_parameters" where
  "lerp a b f =
     \<lparr> temperature_increase = temperature_increase a + (temperature_increase b - temperature_increase a) * f,
       sea_level_rise = sea_level_rise a + (sea_level_rise b - sea_level_rise a) * f,
       precipitation_change =
         map (\<lambda>(x, y). x + (y - x) * f) (zip (precipitation_change a) (precipitation_change b)),
       cyclone_intensity_factor =
         cyclone_intensity_factor a + (cyclone_intensity_factor b - cyclone_intensity_factor a) * f,
       drought_frequency_factor =
         drought_frequency_factor a + (drought_frequency_factor b - drought_frequency_factor a) * f,
       extreme_rainfall_factor =
         extreme_rainfall_factor a + (extreme_rainfall_factor b - extreme_rainfall_factor a) * f \<rparr>"

text \<open>The zero-valued 2025 baseline.\<close>

definition baseline_2025 :: climate_parameters where
  "baseline_2025 =
     \<lparr> temperature_increase = 0, sea_level_rise = 0, precipitation_change = [0, 0, 0, 0],
       cyclone_intensity_factor = 0, drought_frequency_factor = 0, extreme_rainfall_factor = 0 \<rparr>"



subsection \<open>apply\_climate\_scenarios\<close>






section \<open>HazardModel (src/models/hazard\_model.py)\<close>

text \<open>
  Values held in the dictionaries that describe events and footprints.
\<close>

datatype pyval = Num real | Str string | StrList "string list" | Dict "(string \<times> pyval) list"

type_synonym event = "(string \<times> pyval) list"

record hazard_model =
  hazard_type :: string
  return_periods :: "real list"
  spatial_patterns :: string
  seasonal_profile :: string

text \<open>
  The samplers of \<open>scipy.stats\<close> that \<open>generate_events\<close> calls. None of the calls
  passes a \<open>random_state\<close>, so each draws from the process-wide NumPy generator; its
  state \<open>'g\<close> is threaded through the model. \<open>rv_discrete_rvs xs ps\<close> returns one of
  the values \<open>xs\<close>.
\<close>

record 'g scipy_stats =
  uniform_rvs :: "'g \<Rightarrow> real \<times> 'g"
  rv_discrete_rvs :: "int list \<Rightarrow> real list \<Rightarrow> 'g \<Rightarrow> int \<times> 'g"
  gamma_rvs :: "real \<Rightarrow> real \<Rightarrow> 'g \<Rightarrow> real \<times> 'g"

text \<open>
  \<open>intensity_multiplier\<close> and \<open>frequency_multiplier\<close>: 1.0, increased by the climate
  effects when the argument is neither \<open>None\<close> nor an empty dictionary.
\<close>

definition intensity_multiplier :: "(string \<times> real) list option \<Rightarrow> real" where
  "intensity_multiplier climate_effects =
     (case climate_effects of
        None \<Rightarrow> 1
      | Some ce \<Rightarrow> if ce = [] then 1 else 1 + dict_get ce ''intensity_change'' 0)"

definition frequency_multiplier :: "(string \<times> real) list option \<Rightarrow> real" where
  "frequency_multiplier climate_effects =
     (case climate_effects of
        None \<Rightarrow> 1
      | Some ce \<Rightarrow> if ce = [] then 1 else 1 + dict_get ce ''frequency_change'' 0)"

text \<open>
  \<open>annual_prob = 1.0 / return_period * frequency_multiplier\<close>; the division raises for
  a return period of 0. The value is used as computed: no bound is applied to it.
\<close>

definition annual_prob :: "real \<Rightarrow> real \<Rightarrow> py_error + real" where
  "annual_prob return_period freq_multiplier =
     (if return_period = 0 then Inl ZeroDivisionError
      else Inr (1 / return_period * freq_multiplier))"

definition month_probabilities :: "hazard_model \<Rightarrow> real list" where
  "month_probabilities hm =
     (if hazard_type hm = ''flood'' then
        (if seasonal_profile hm = ''monsoon''
         then [0.01, 0.01, 0.02, 0.05, 0.10, 0.20, 0.25, 0.20, 0.10, 0.04, 0.01, 0.01]
         else replicate 12 (1 / 12))
      else if hazard_type hm = ''cyclone''
      then [0.02, 0.03, 0.07, 0.09, 0.14, 0.05, 0.01, 0.01, 0.03, 0.10, 0.12, 0.04]
      else replicate 12 (1 / 12))"

definition sample_month_from_profile :: "'g scipy_stats \<Rightarrow> hazard_model \<Rightarrow> 'g \<Rightarrow> int \<times> 'g" where
  "sample_month_from_profile ops hm g = rv_discrete_rvs ops [1 .. 12] (month_probabilities hm) g"

text \<open>
  \<open>a * np.log(return_period) + b\<close>. NumPy's logarithm of a non-positive number is nan
  or -inf; HOL's \<open>ln\<close> is unspecified there.
\<close>

definition intensity_from_return_period :: "hazard_model \<Rightarrow> real \<Rightarrow> real" where
  "intensity_from_return_period hm return_period =
     (if hazard_type hm = ''flood'' then 0.8 * ln return_period + 1.0
      else if hazard_type hm = ''cyclone'' then 15 * ln return_period + 120
      else 0.5 * ln return_period + 1.0)"

definition generate_spatial_footprint :: "hazard_model \<Rightarrow> real \<Rightarrow> pyval" where
  "generate_spatial_footprint hm intensity =
     (if spatial_patterns hm = ''riverine''
      then Dict [(''type'', Str ''riverine''),
                 (''affected_rivers'', StrList [''brahmaputra'', ''ganges'', ''meghna''])]
      else if spatial_patterns hm = ''coastal''
      then Dict [(''type'', Str ''coastal''),
                 (''affected_coast'', StrList [''chittagong'', ''khulna'', ''barisal''])]
      else Dict [(''type'', Str ''generic''), (''coverage'', Str ''national'')])"

text \<open>
  \<open>keys[rv_discrete(values=(range(len(keys)), probabilities)).rvs()]\<close> on the track
  probabilities of the cyclone configuration, with Python's list indexing.
\<close>

definition sample_track_direction :: "'g scipy_stats \<Rightarrow> 'g \<Rightarrow> (py_error + string) \<times> 'g" where
  "sample_track_direction ops g =
     (let keys = [''west'', ''northwest'', ''north''];
          (i, g') = rv_discrete_rvs ops [0 .. 2] [0.40, 0.35, 0.25] g;
          j = (if i < 0 then int (length keys) + i else i)
      in if 0 \<le> j \<and> j < int (length keys) then (Inr (keys ! nat j), g')
         else (Inl IndexError, g'))"

text \<open>
  \<open>_add_hazard_specific_attributes\<close>. In the geophysical branch the tests
  \<open>event['type'] == 'earthquake'\<close> and \<open>event['type'] == 'landslide'\<close> read the type that
  \<open>generate_events\<close> has just set to \<open>self.hazard_type\<close>, which is \<open>'geophysical'\<close>
  there: the branch adds nothing.
\<close>

definition add_hazard_specific_attributes ::
  "'g scipy_stats \<Rightarrow> hazard_model \<Rightarrow> event \<Rightarrow> int \<Rightarrow> real \<Rightarrow> 'g \<Rightarrow> (py_error + event) \<times> 'g" where
  "add_hazard_specific_attributes ops hm ev month intensity g =
     (if hazard_type hm = ''flood'' then
        (let flood_type = (if month \<in> set [6, 7, 8, 9] then ''riverine'' else ''flash'');
             (duration, g') =
               (if flood_type = ''riverine'' then gamma_rvs ops 5 3 g else gamma_rvs ops 2 1 g)
         in (Inr (ev @ [(''flood_type'', Str flood_type), (''duration'', Num duration),
                        (''depth'', Num intensity)]), g'))
      else if hazard_type hm = ''cyclone'' then
        (let wind_speed = intensity;
             storm_surge = 0.05 * wind_speed * 1.2
         in case sample_track_direction ops g of
              (Inl e, g') \<Rightarrow> (Inl e, g')
            | (Inr track, g') \<Rightarrow>
                (let (duration, g'') = gamma_rvs ops 2 12 g'
                 in (Inr (ev @ [(''wind_speed'', Num wind_speed), (''storm_surge'', Num storm_surge),
                                (''track_direction'', Str track),
                                (''rainfall_intensity'', Num (10 * ln wind_speed - 40)),
                                (''duration'', Num duration)]), g'')))
      else (Inr ev, g))"

text \<open>
  The loop of \<open>generate_events\<close> over \<open>self.return_periods\<close>: one uniform draw per
  return period, an event when the draw is below \<open>annual_prob\<close>.
\<close>

fun generate_events_loop ::
  "'g scipy_stats \<Rightarrow> hazard_model \<Rightarrow> int \<Rightarrow> real \<Rightarrow> real \<Rightarrow> real list \<Rightarrow> event list \<Rightarrow> 'g
     \<Rightarrow> (py_error + event list) \<times> 'g" where
  "generate_events_loop ops hm year im fm [] events g = (Inr events, g)"
| "generate_events_loop ops hm year im fm (return_period # rest) events g =
     (case annual_prob return_period fm of
        Inl e \<Rightarrow> (Inl e, g)
      | Inr p \<Rightarrow>
          (let (u, g1) = uniform_rvs ops g in
           if u < p then
             (let (month, g2) = sample_month_from_profile ops hm g1;
                  base_intensity = intensity_from_return_period hm return_period;
                  adjusted_intensity = base_intensity * im;
                  ev = [(''type'', Str (hazard_type hm)), (''year'', Num (real_of_int year)),
                        (''month'', Num (real_of_int month)),
                        (''return_period'', Num return_period),
                        (''intensity'', Num adjusted_intensity),
                        (''spatial_footprint'', generate_spatial_footprint hm adjusted_intensity)]
              in case add_hazard_specific_attributes ops hm ev month adjusted_intensity g2 of
                   (Inl e, g3) \<Rightarrow> (Inl e, g3)
                 | (Inr ev', g3) \<Rightarrow>
                     generate_events_loop ops hm year im fm rest (events @ [ev']) g3)
           else generate_events_loop ops hm year im fm rest events g1))"

definition generate_events ::
  "'g scipy_stats \<Rightarrow> hazard_model \<Rightarrow> int \<Rightarrow> (string \<times> real) list option \<Rightarrow> 'g
     \<Rightarrow> (py_error + event list) \<times> 'g" where
  "generate_events ops hm year climate_effects g =
     generate_events_loop ops hm year (intensity_multiplier climate_effects)
       (frequency_multiplier climate_effects) (return_periods hm) [] g"


text \<open>
  A stand-in for the samplers, used to run \<open>generate_events\<close> on concrete draws: the
  state of the generator is the list of uniform variates it will hand out next; the
  discrete sampler returns the first of its values and the gamma sampler the mean
  \<open>shape * scale\<close>, neither consuming the state.
\<close>

definition listed_draws :: "real list scipy_stats" where
  "listed_draws =
     \<lparr> uniform_rvs = (\<lambda>g. case g of [] \<Rightarrow> (0, []) | u # us \<Rightarrow> (u, us)),
       rv_discrete_rvs = (\<lambda>xs ps g. (case xs of [] \<Rightarrow> 0 | x # _ \<Rightarrow> x, g)),
       gamma_rvs = (\<lambda>shape scale g. (shape * scale, g)) \<rparr>"

text \<open>The flood entry of the example configuration, with the single return period 10.\<close>

definition flood_rp10 :: hazard_model where
  "flood_rp10 =
     \<lparr> hazard_type = ''flood'', return_periods = [10], spatial_patterns = ''riverine'',
       seasonal_profile = ''monsoon'' \<rparr>"


section \<open>ExposureModel (src/models/exposure\_model.py and bangladesh\_disaster\_simulation.py)\<close>

definition bind_err :: "'e + 'a \<Rightarrow> ('a \<Rightarrow> 'e + 'b) \<Rightarrow> 'e + 'b" where
  "bind_err m f = (case m of Inl e \<Rightarrow> Inl e | Inr v \<Rightarrow> f v)"

text \<open>\<open>d[k]\<close>, and a read followed by a write of \<open>d[k]\<close>.\<close>

definition dict_item :: "('k \<times> 'v) list \<Rightarrow> 'k \<Rightarrow> py_error + 'v" where
  "dict_item d k = (case map_of d k of None \<Rightarrow> Inl KeyError | Some v \<Rightarrow> Inr v)"

definition dict_modify :: "('k \<times> 'v) list \<Rightarrow> 'k \<Rightarrow> ('v \<Rightarrow> 'v) \<Rightarrow> py_error + ('k \<times> 'v) list" where
  "dict_modify d k f =
     (case map_of d k of None \<Rightarrow> Inl KeyError | Some v \<Rightarrow> Inr (AList.update k (f v) d))"

text \<open>
  One entry of \<open>self.admin_boundaries\<close>, as \<open>_create_dummy_geodataframe\<close> builds it: the
  number of units and, of its attribute arrays, the two that are read.
\<close>

record admin_gdf =
  num_units :: nat
  unit_population :: "real list"
  unit_building_count :: "real list"

text \<open>The attributes of an \<open>ExposureModel\<close> that its methods read or write.\<close>

record exposure_model =
  admin_level :: string
  admin_boundaries :: "(string \<times> admin_gdf) list"
  total_population :: real
  population_growth_rate :: real
  urban_population_pct :: real
  building_types :: "(string \<times> real) list"
  critical_facilities :: "(string \<times> real) list"
  economic_sectors :: "(string \<times> real) list"
  agricultural_data :: "(string \<times> real) list"

text \<open>
  The state \<open>__init__\<close> sets up, for a given administrative level and given (randomly
  generated) boundary data.
\<close>

definition init_exposure_model :: "string \<Rightarrow> (string \<times> admin_gdf) list \<Rightarrow> exposure_model" where
  "init_exposure_model level boundaries =
     \<lparr> admin_level = level,
       admin_boundaries = boundaries,
       total_population = 169000000,
       population_growth_rate = 0.01,
       urban_population_pct = 0.39,
       building_types =
         [(''RCC'', 0.15), (''semi_pucca'', 0.25), (''kutcha'', 0.50), (''jhupri'', 0.10)],
       critical_facilities =
         [(''hospitals'', 620), (''primary_schools'', 65000), (''secondary_schools'', 20300),
          (''power_plants'', 143), (''bridges'', 4700), (''embankments_km'', 12000),
          (''cyclone_shelters'', 2500), (''telecom_towers'', 35000)],
       economic_sectors = [(''agriculture'', 0.12), (''industry'', 0.33), (''services'', 0.55)],
       agricultural_data =
         [(''rice_area_ha'', 11000000), (''wheat_area_ha'', 350000), (''jute_area_ha'', 700000),
          (''vegetable_area_ha'', 900000), (''aquaculture_area_ha'', 830000)] \<rparr>"











text \<open>
  Every exposed quantity is at most the stock it is taken from: the population of all
  units, the buildings of all units times the share of the building type, the count of the
  facility type, the area of the crop.
\<close>

definition entries_within :: "(string \<times> int) list \<Rightarrow> (string \<times> real) list \<Rightarrow> bool" where
  "entries_within exposed stock =
     list_all2 (\<lambda>(k, e) (k', total). k = k' \<and> real_of_int e \<le> total) exposed stock"








subsection \<open>update\_exposure (bangladesh\_disaster\_simulation.py)\<close>

text \<open>
  \<open>base ** n\<close> for a float base and an integer exponent: it raises for the base 0 and
  a negative exponent.
\<close>

definition py_pow_int :: "real \<Rightarrow> int \<Rightarrow> py_error + real" where
  "py_pow_int b n = (if b = 0 \<and> n < 0 then Inl ZeroDivisionError else Inr (b powi n))"

text \<open>
  The building inventory step: \<open>'RCC'\<close> grows by 0.003 per year passed and is capped at
  0.35 by \<open>min\<close>; \<open>'kutcha'\<close> and \<open>'semi_pucca'\<close> each lose half of the uncapped
  increase.
\<close>

definition update_building_types :: "(string \<times> real) list \<Rightarrow> int \<Rightarrow> py_error + (string \<times> real) list" where
  "update_building_types bt years_passed =
     (let rcc_increase = real_of_int years_passed * 0.003 in
      bind_err (dict_modify bt ''RCC'' (\<lambda>v. min (v + rcc_increase) 0.35)) (\<lambda>bt.
      bind_err (dict_modify bt ''kutcha'' (\<lambda>v. v - rcc_increase / 2)) (\<lambda>bt.
      dict_modify bt ''semi_pucca'' (\<lambda>v. v - rcc_increase / 2))))"

definition update_critical_facilities ::
  "(string \<times> real) list \<Rightarrow> int \<Rightarrow> py_error + (string \<times> real) list" where
  "update_critical_facilities cf years_passed =
     bind_err (dict_modify cf ''cyclone_shelters'' (\<lambda>v. v + 50 * real_of_int years_passed)) (\<lambda>cf.
     bind_err (dict_modify cf ''hospitals'' (\<lambda>v. v + 10 * real_of_int years_passed)) (\<lambda>cf.
     dict_modify cf ''telecom_towers'' (\<lambda>v. v + 1000 * real_of_int years_passed)))"

definition update_economic_sectors ::
  "(string \<times> real) list \<Rightarrow> int \<Rightarrow> py_error + (string \<times> real) list" where
  "update_economic_sectors es years_passed =
     (let service_increase = real_of_int years_passed * 0.002 in
      bind_err (dict_modify es ''services'' (\<lambda>v. min (v + service_increase) 0.65)) (\<lambda>es.
      bind_err (dict_modify es ''agriculture'' (\<lambda>v. v - service_increase / 2)) (\<lambda>es.
      dict_modify es ''industry'' (\<lambda>v. v - service_increase / 2))))"

text \<open>
  \<open>update_exposure(year)\<close>, returning the updated model. \<open>years_passed\<close> is counted from
  2025 at every call.
\<close>

definition update_exposure :: "exposure_model \<Rightarrow> int \<Rightarrow> py_error + exposure_model" where
  "update_exposure m year =
     (let years_passed = year - 2025 in
      bind_err (py_pow_int (1 + population_growth_rate m) years_passed) (\<lambda>growth.
      bind_err (update_building_types (building_types m) years_passed) (\<lambda>bt.
      bind_err (update_critical_facilities (critical_facilities m) years_passed) (\<lambda>cf.
      bind_err (update_economic_sectors (economic_sectors m) years_passed) (\<lambda>es.
        Inr (m \<lparr> total_population := total_population m * growth,
                  urban_population_pct :=
                    min (urban_population_pct m + real_of_int years_passed * 0.005) 0.65,
                  agricultural_data :=
                    map (\<lambda>(crop_type, area).
                           (crop_type,
                            area * (1 - (if crop_type = ''rice_area_ha'' then 0.002 else 0.001))
                                     powi years_passed))
                      (agricultural_data m),
                  building_types := bt,
                  critical_facilities := cf,
                  economic_sectors := es \<rparr>))))))"

text \<open>One call per year of a list of years, in order.\<close>

fun annual_updates :: "exposure_model \<Rightarrow> int list \<Rightarrow> py_error + exposure_model" where
  "annual_updates m [] = Inr m"
| "annual_updates m (year # years) =
     bind_err (update_exposure m year) (\<lambda>m'. annual_updates m' years)"

text \<open>The sum of the building-type fractions.\<close>

definition building_fraction_sum :: "exposure_model \<Rightarrow> real" where
  "building_fraction_sum m = sum_list (map snd (building_types m))"


section \<open>RecoveryModel (src/models/recovery\_model.py)\<close>

text \<open>
  One entry of the \<open>'buildings'\<close> or \<open>'infrastructure'\<close> damages, as
  \<open>calculate_damages\<close> writes it.
\<close>

record damage =
  count :: int
  damage_ratio :: real
  damaged_count :: int

text \<open>
  The arguments of \<open>simulate_recovery\<close>. Every read is a \<open>.get\<close> with a default, so an
  absent key is \<open>None\<close> (or the empty dictionary for the four sectors).
\<close>

record disaster_impacts =
  impact_buildings :: "(string \<times> damage) list"
  impact_infrastructure :: "(string \<times> damage) list"
  impact_economic :: "(string \<times> real) list"
  impact_casualties :: "(string \<times> int) list"
  impact_region_type :: "string option"

record governance_quality =
  coordination :: "string option"
  planning_capacity :: "string option"
  corruption_level :: "string option"
  community_engagement :: "string option"

record funding_availability =
  total_funding :: "real option"
  bbb_policy_strength :: "string option"
  bbb_funding_allocation :: "string option"
  bbb_technical_capacity :: "string option"

definition housing_recovery_rates :: "(string \<times> real) list" where
  "housing_recovery_rates =
     [(''RCC'', 0.10), (''semi_pucca'', 0.08), (''kutcha'', 0.15), (''jhupri'', 0.20)]"

definition infrastructure_recovery_rates :: "(string \<times> real) list" where
  "infrastructure_recovery_rates =
     [(''roads'', 0.12), (''bridges'', 0.05), (''electricity'', 0.15), (''water_supply'', 0.10),
      (''schools'', 0.08), (''hospitals'', 0.07), (''embankments'', 0.06)]"

definition funding_level_multipliers :: "(string \<times> real) list" where
  "funding_level_multipliers =
     [(''very_low'', 0.6), (''low'', 0.8), (''medium'', 1.0), (''high'', 1.2), (''very_high'', 1.3)]"

definition governance_recovery_factors :: "(string \<times> (string \<times> real) list) list" where
  "governance_recovery_factors =
     [(''coordination'', [(''poor'', 0.7), (''fair'', 0.9), (''good'', 1.1), (''excellent'', 1.3)]),
      (''planning_capacity'', [(''low'', 0.8), (''medium'', 1.0), (''high'', 1.2)]),
      (''corruption_level'', [(''high'', 0.7), (''medium'', 0.9), (''low'', 1.1)]),
      (''community_engagement'', [(''low'', 0.8), (''medium'', 1.0), (''high'', 1.2)])]"

definition regional_recovery_factors :: "(string \<times> real) list" where
  "regional_recovery_factors =
     [(''coastal'', 0.9), (''urban'', 1.1), (''flood_plain'', 0.9), (''haor_basin'', 0.8),
      (''hill_tracts'', 0.8), (''char_lands'', 0.7)]"

text \<open>\<open>self.seasonal_recovery_factors\<close>, keyed by the month 1 to 12.\<close>

definition seasonal_recovery_factors :: "(nat \<times> real) list" where
  "seasonal_recovery_factors =
     [(1, 0.9), (2, 1.0), (3, 1.1), (4, 1.0), (5, 0.9), (6, 0.7), (7, 0.6), (8, 0.6), (9, 0.7),
      (10, 0.9), (11, 1.0), (12, 0.9)]"

definition build_back_better_effectiveness :: "(string \<times> (string \<times> real) list) list" where
  "build_back_better_effectiveness =
     [(''policy_strength'', [(''weak'', 0.1), (''moderate'', 0.2), (''strong'', 0.3)]),
      (''funding_allocation'', [(''low'', 0.1), (''medium'', 0.2), (''high'', 0.3)]),
      (''technical_capacity'', [(''limited'', 0.6), (''adequate'', 1.0), (''strong'', 1.3)])]"

text \<open>\<open>self.recovery_patterns\<close>; \<open>t\<close> and \<open>max_t\<close> are integers, \<open>/\<close> is true division.\<close>

definition recovery_pattern :: "string \<Rightarrow> nat \<Rightarrow> int \<Rightarrow> real" where
  "recovery_pattern name t max_t =
     (let x = real t / real_of_int max_t in
      if name = ''linear'' then x
      else if name = ''early_rapid'' then sqrt x
      else if name = ''late_rapid'' then x ^ 2
      else 1 / (1 + exp (- 10 * (x - 0.5))))"

definition sector_pattern :: "string \<Rightarrow> string" where
  "sector_pattern sector =
     (if sector = ''housing'' then ''early_rapid''
      else if sector = ''infrastructure'' then ''s_shaped''
      else if sector = ''livelihoods'' then ''s_shaped''
      else if sector = ''social'' then ''late_rapid''
      else ''linear'')"

text \<open>Python's \<open>str.lower\<close> on ASCII letters: an upper-case letter gets the bit of value 32 set.\<close>

definition lower_char :: "char \<Rightarrow> char" where
  "lower_char c =
     (if 65 \<le> (of_char c :: nat) \<and> (of_char c :: nat) \<le> 90
      then (case c of Char b0 b1 b2 b3 b4 b5 b6 b7 \<Rightarrow> Char b0 b1 b2 b3 b4 True b6 b7)
      else c)"

definition py_lower :: "string \<Rightarrow> string" where
  "py_lower s = map lower_char s"

definition mapped_infrastructure_type :: "string \<Rightarrow> string" where
  "mapped_infrastructure_type infra_type =
     (let l = py_lower infra_type in
      if str_in ''road'' l then ''roads''
      else if str_in ''bridge'' l then ''bridges''
      else if str_in ''electric'' l \<or> str_in ''power'' l then ''electricity''
      else if str_in ''water'' l then ''water_supply''
      else if str_in ''school'' l then ''schools''
      else if str_in ''hospital'' l \<or> str_in ''clinic'' l then ''hospitals''
      else if str_in ''embankment'' l \<or> str_in ''levee'' l then ''embankments''
      else ''roads'')"

text \<open>
  \<open>min(cap, int(1.0 / rate))\<close>: the division raises when the averaged rate is 0.
\<close>

definition horizon_from_rate :: "int \<Rightarrow> real \<Rightarrow> py_error + int" where
  "horizon_from_rate cap rate =
     (if rate = 0 then Inl ZeroDivisionError else Inr (min cap (py_int (1 / rate))))"

definition housing_horizon :: "(string \<times> damage) list \<Rightarrow> py_error + int" where
  "housing_horizon housing_damages =
     (if housing_damages \<noteq> [] then
        (let total_damaged = sum_list (map (\<lambda>(building_type, d). damaged_count d) housing_damages);
             weighted_rate =
               sum_list (map (\<lambda>(building_type, d).
                                if building_type \<in> fst ` set housing_recovery_rates
                                then real_of_int (damaged_count d)
                                       * dict_get housing_recovery_rates building_type 0
                                else 0) housing_damages)
         in if total_damaged > 0
            then horizon_from_rate 60 (weighted_rate / real_of_int total_damaged)
            else Inr 0)
      else Inr 0)"

definition infrastructure_horizon :: "(string \<times> damage) list \<Rightarrow> py_error + int" where
  "infrastructure_horizon infra_damages =
     (if infra_damages \<noteq> [] then
        (let total_damaged = sum_list (map (\<lambda>(infra_type, d). damaged_count d) infra_damages);
             weighted_rate =
               sum_list (map (\<lambda>(infra_type, d).
                                real_of_int (damaged_count d)
                                  * dict_get infrastructure_recovery_rates
                                      (mapped_infrastructure_type infra_type) 0) infra_damages)
         in if total_damaged > 0
            then horizon_from_rate 72 (weighted_rate / real_of_int total_damaged)
            else Inr 0)
      else Inr 0)"

definition livelihoods_horizon :: "(string \<times> real) list \<Rightarrow> py_error + int" where
  "livelihoods_horizon econ_damages =
     (if econ_damages \<noteq> [] then
        (let direct_losses = dict_get econ_damages ''direct_losses'' 0;
             indirect_losses = dict_get econ_damages ''indirect_losses'' 0
         in if direct_losses + indirect_losses > 0
            then horizon_from_rate 60
                   ((direct_losses * 0.12 + indirect_losses * 0.08)
                      / (direct_losses + indirect_losses))
            else Inr 0)
      else Inr 0)"

definition social_horizon :: "(string \<times> int) list \<Rightarrow> int" where
  "social_horizon casualties =
     (if casualties \<noteq> [] then
        (let displaced = dict_get casualties ''displaced'' 0;
             deaths = dict_get casualties ''deaths'' 0;
             injuries = dict_get casualties ''injuries'' 0
         in if deaths + injuries + displaced > 0
            then min 84 (py_int ((real_of_int deaths * 5 + real_of_int injuries * 1
                                   + real_of_int displaced * 0.5) / 1000))
            else 0)
      else 0)"

definition calculate_recovery_horizons :: "disaster_impacts \<Rightarrow> py_error + (string \<times> int) list" where
  "calculate_recovery_horizons impacts =
     bind_err (housing_horizon (impact_buildings impacts)) (\<lambda>h.
     bind_err (infrastructure_horizon (impact_infrastructure impacts)) (\<lambda>i.
     bind_err (livelihoods_horizon (impact_economic impacts)) (\<lambda>l.
       Inr [(''housing'', h), (''infrastructure'', i), (''livelihoods'', l),
            (''social'', social_horizon (impact_casualties impacts))])))"

definition estimate_funding_needs :: "disaster_impacts \<Rightarrow> real" where
  "estimate_funding_needs impacts =
     (let economic = impact_economic impacts;
          direct_losses = dict_get economic ''direct_losses'' 0;
          indirect_losses = dict_get economic ''indirect_losses'' 0
      in direct_losses * 1.5 + indirect_losses * 0.5)"

text \<open>
  \<open>available_funding / funding_needs\<close>, with the default of 70 percent of the needs for
  an absent \<open>'total_funding'\<close>.
\<close>

definition available_funds :: "funding_availability \<Rightarrow> real \<Rightarrow> real" where
  "available_funds funding funding_needs =
     (case total_funding funding of None \<Rightarrow> funding_needs * 0.7 | Some f \<Rightarrow> f)"

definition funding_ratio_of :: "real \<Rightarrow> real \<Rightarrow> py_error + real" where
  "funding_ratio_of available_funding funding_needs =
     (if funding_needs = 0 then Inl ZeroDivisionError
      else Inr (available_funding / funding_needs))"

definition funding_level :: "real \<Rightarrow> string" where
  "funding_level funding_ratio =
     (if funding_ratio < 0.2 then ''very_low''
      else if funding_ratio < 0.5 then ''low''
      else if funding_ratio < 0.8 then ''medium''
      else if funding_ratio < 1.0 then ''high''
      else ''very_high'')"

definition table_item :: "(string \<times> (string \<times> real) list) list \<Rightarrow> string \<Rightarrow> string \<Rightarrow> py_error + real" where
  "table_item tbl k1 k2 = bind_err (dict_item tbl k1) (\<lambda>t. dict_item t k2)"

definition governance_multiplier :: "governance_quality \<Rightarrow> py_error + real" where
  "governance_multiplier g =
     bind_err (table_item governance_recovery_factors ''coordination''
                 (case coordination g of None \<Rightarrow> ''fair'' | Some v \<Rightarrow> v)) (\<lambda>c.
     bind_err (table_item governance_recovery_factors ''planning_capacity''
                 (case planning_capacity g of None \<Rightarrow> ''medium'' | Some v \<Rightarrow> v)) (\<lambda>p.
     bind_err (table_item governance_recovery_factors ''corruption_level''
                 (case corruption_level g of None \<Rightarrow> ''medium'' | Some v \<Rightarrow> v)) (\<lambda>k.
     bind_err (table_item governance_recovery_factors ''community_engagement''
                 (case community_engagement g of None \<Rightarrow> ''medium'' | Some v \<Rightarrow> v)) (\<lambda>e.
       Inr (c * 0.3 + p * 0.3 + k * 0.2 + e * 0.2)))))"

definition regional_multiplier :: "disaster_impacts \<Rightarrow> real" where
  "regional_multiplier impacts =
     (let region_type = (case impact_region_type impacts of None \<Rightarrow> ''flood_plain'' | Some r \<Rightarrow> r)
      in if region_type \<in> fst ` set regional_recovery_factors
         then dict_get regional_recovery_factors region_type 1.0
         else 1.0)"

definition bbb_improvement_of :: "funding_availability \<Rightarrow> py_error + real" where
  "bbb_improvement_of funding =
     bind_err (table_item build_back_better_effectiveness ''policy_strength''
                 (case bbb_policy_strength funding of None \<Rightarrow> ''moderate'' | Some v \<Rightarrow> v)) (\<lambda>p.
     bind_err (table_item build_back_better_effectiveness ''funding_allocation''
                 (case bbb_funding_allocation funding of None \<Rightarrow> ''medium'' | Some v \<Rightarrow> v)) (\<lambda>f.
     bind_err (table_item build_back_better_effectiveness ''technical_capacity''
                 (case bbb_technical_capacity funding of None \<Rightarrow> ''adequate'' | Some v \<Rightarrow> v)) (\<lambda>t.
       Inr (p * f * t))))"

text \<open>
  The loop of \<open>_generate_sector_trajectory\<close> over the base trajectory: month 0 is 0,
  every later month adds the scaled increment to the last value and caps the result at
  1.0. \<open>current_month\<close> is 1, so the month of step \<open>t_idx\<close> is \<open>t_idx mod 12 + 1\<close>.
\<close>

definition adjust_step :: "real list \<Rightarrow> real \<Rightarrow> nat \<Rightarrow> real list \<Rightarrow> real list" where
  "adjust_step base_trajectory mult t_idx adjusted_trajectory =
     (let month_idx = ((1 + t_idx - 1) mod 12) + 1;
          seasonal_factor = dict_get seasonal_recovery_factors month_idx 0;
          adjusted_recovery =
            (if t_idx = 0 then 0
             else min 1 (last adjusted_trajectory
                          + (base_trajectory ! t_idx - base_trajectory ! (t_idx - 1))
                              * mult * seasonal_factor))
      in adjusted_trajectory @ [adjusted_recovery])"

text \<open>
  \<open>_generate_sector_trajectory\<close>; \<open>np.arange(0, horizon + 1)\<close> is empty for a negative
  horizon.
\<close>

definition generate_sector_trajectory :: "string \<Rightarrow> int \<Rightarrow> real \<Rightarrow> real \<Rightarrow> real \<Rightarrow> real list" where
  "generate_sector_trajectory sector horizon funding_mult governance_mult regional_mult =
     (if horizon = 0 then [1]
      else
        (let timesteps = [0 ..< nat (horizon + 1)];
             base_trajectory = map (\<lambda>t. recovery_pattern (sector_pattern sector) t horizon) timesteps
         in fold (adjust_step base_trajectory (funding_mult * governance_mult * regional_mult))
              [0 ..< length base_trajectory] []))"

text \<open>
  The build-back-better step of \<open>simulate_recovery\<close>: \<open>base_trajectory[-1]\<close> raises on an
  empty trajectory.
\<close>

definition apply_bbb :: "real \<Rightarrow> real list \<Rightarrow> py_error + real list" where
  "apply_bbb bbb base_trajectory =
     (if bbb > 0 then
        (if base_trajectory = [] then Inl IndexError
         else (let final_state = last base_trajectory * (1 + bbb)
               in Inr (map (\<lambda>val. min val final_state) base_trajectory)))
      else Inr base_trajectory)"

fun sector_trajectories ::
  "(string \<times> int) list \<Rightarrow> real \<Rightarrow> real \<Rightarrow> real \<Rightarrow> real \<Rightarrow> py_error + (string \<times> real list) list" where
  "sector_trajectories [] fm gm rm bbb = Inr []"
| "sector_trajectories ((sector, horizon) # rest) fm gm rm bbb =
     bind_err (apply_bbb bbb (generate_sector_trajectory sector horizon fm gm rm)) (\<lambda>traj.
     bind_err (sector_trajectories rest fm gm rm bbb) (\<lambda>trajs.
       Inr ((sector, traj) # trajs)))"

text \<open>
  The result of \<open>simulate_recovery\<close>. The milestones and the quality scores are computed
  from the finished trajectories, change none of them and raise nothing on non-empty
  trajectories; they are left out.
\<close>

record recovery_result =
  recovery_trajectories :: "(string \<times> real list) list"
  recovery_horizon_months :: "(string \<times> int) list"
  funding_ratio :: real
  bbb_improvement :: real
  total_funding_needs :: real
  available_funding :: real

definition simulate_recovery ::
  "disaster_impacts \<Rightarrow> governance_quality \<Rightarrow> funding_availability \<Rightarrow> py_error + recovery_result" where
  "simulate_recovery impacts governance funding =
     bind_err (calculate_recovery_horizons impacts) (\<lambda>recovery_horizons.
     (let funding_needs = estimate_funding_needs impacts;
          avail = available_funds funding funding_needs
      in
      bind_err (funding_ratio_of avail funding_needs) (\<lambda>ratio.
      bind_err (dict_item funding_level_multipliers (funding_level ratio)) (\<lambda>funding_mult.
      bind_err (governance_multiplier governance) (\<lambda>governance_mult.
      bind_err (bbb_improvement_of funding) (\<lambda>bbb.
      bind_err (sector_trajectories recovery_horizons funding_mult governance_mult
                  (regional_multiplier impacts) bbb) (\<lambda>trajs.
        Inr \<lparr> recovery_trajectories = trajs,
              recovery_horizon_months = recovery_horizons,
              funding_ratio = ratio,
              bbb_improvement = bbb,
              total_funding_needs = funding_needs,
              available_funding = avail \<rparr>)))))))"

text \<open>A sequence is non-decreasing.\<close>

definition non_decreasing :: "real list \<Rightarrow> bool" where
  "non_decreasing xs \<longleftrightarrow> (\<forall>i. Suc i < length xs \<longrightarrow> xs ! i \<le> xs ! Suc i)"


text \<open>
  The invariant of the trajectory loop after \<open>n\<close> months: \<open>n\<close> values in [0, 1], the
  first of them 0, each at least its predecessor.
\<close>

definition traj_ok :: "nat \<Rightarrow> real list \<Rightarrow> bool" where
  "traj_ok n A \<longleftrightarrow>
     length A = n \<and> (\<forall>i<n. 0 \<le> A ! i \<and> A ! i \<le> 1) \<and> (0 < n \<longrightarrow> A ! 0 = 0) \<and>
     (\<forall>i. Suc i < n \<longrightarrow> A ! i \<le> A ! Suc i)"

text \<open>
  What holds of the trajectory of a sector with the given horizon: it is not empty and
  non-decreasing, its last element is at most 1 + bbb, and it starts at 0 unless the
  horizon is 0, where it is the single value 1.0.
\<close>

definition sector_trajectory_ok :: "real \<Rightarrow> int \<Rightarrow> real list \<Rightarrow> bool" where
  "sector_trajectory_ok bbb horizon traj \<longleftrightarrow>
     traj \<noteq> [] \<and> non_decreasing traj \<and> last traj \<le> 1 + bbb \<and>
     (if horizon = 0 then traj = [1] else hd traj = 0)"

text \<open>The trajectory of one sector in the outcome of \<open>simulate_recovery\<close>.\<close>

definition trajectory_of :: "py_error + recovery_result \<Rightarrow> string \<Rightarrow> real list option" where
  "trajectory_of outcome sector =
     (case outcome of Inl e \<Rightarrow> None | Inr r \<Rightarrow> map_of (recovery_trajectories r) sector)"

text \<open>
  Sample arguments: economic losses only (no damaged building, facility or casualty), and
  empty governance and funding dictionaries.
\<close>

definition economic_losses_only :: disaster_impacts where
  "economic_losses_only =
     \<lparr> impact_buildings = [], impact_infrastructure = [],
       impact_economic = [(''direct_losses'', 1000), (''indirect_losses'', 500)],
       impact_casualties = [], impact_region_type = None \<rparr>"

definition no_governance_info :: governance_quality where
  "no_governance_info =
     \<lparr> coordination = None, planning_capacity = None, corruption_level = None,
       community_engagement = None \<rparr>"

definition no_funding_info :: funding_availability where
  "no_funding_info =
     \<lparr> total_funding = None, bbb_policy_strength = None, bbb_funding_allocation = None,
       bbb_technical_capacity = None \<rparr>"





section \<open>VulnerabilityModel.calculate\_damages (bangladesh\_disaster\_simulation.py)\<close>












record casualties =
  deaths :: int
  injuries :: int
  displaced :: int






section \<open>Properties of the climate interpolation\<close>

lemma scenarios_keys: "fst ` set scenarios = {''RCP4.5'', ''RCP8.5'', ''RCP2.6''}"
  by (auto simp: scenarios_def)

lemma scenario_table_known:
  "scenario_table ''RCP4.5'' = RCP45"
  "scenario_table ''RCP8.5'' = RCP85"
  "scenario_table ''RCP2.6'' = RCP26"
  by (simp_all add: scenario_table_def resolve_scenario_def scenarios_keys dict_get_def scenarios_def)

lemma known_scenario_cases:
  assumes "map_of scenarios name = Some s"
  shows "(name = ''RCP4.5'' \<and> s = RCP45) \<or> (name = ''RCP8.5'' \<and> s = RCP85)
         \<or> (name = ''RCP2.6'' \<and> s = RCP26)"
  using assms by (auto simp: scenarios_def split: if_splits)

lemma scenario_table_cases:
  "scenario_table name = RCP45 \<or> scenario_table name = RCP85 \<or> scenario_table name = RCP26"
  by (auto simp: scenario_table_def resolve_scenario_def scenarios_keys dict_get_def scenarios_def)

lemma precip_lengths:
  "s = RCP45 \<or> s = RCP85 \<or> s = RCP26 \<Longrightarrow> length (precipitation_change_tbl s d) = 4"
  by (cases d) (auto simp: RCP45_def RCP85_def RCP26_def by_decade_def)

lemma lerp_one:
  assumes l: "length (precipitation_change a) = length (precipitation_change b)"
  shows "lerp a b 1 = b"
proof -
  have "map (\<lambda>(x, y). x + (y - x) * 1) (zip (precipitation_change a) (precipitation_change b))
        = precipitation_change b"
    using l by (intro nth_equalityI) auto
  then show ?thesis by (simp add: lerp_def)
qed

lemma strictly_between_half: "strictly_between a b (a + (b - a) * (1/2))"
  unfolding strictly_between_def by (auto simp: min_def max_def field_simps)

lemma select_decade_2030: "select_decade 2030 = (D2030, None, 1)"
  by (simp add: select_decade_def)

lemma select_decade_2035: "select_decade 2035 = (D2040, Some D2030, 1/2)"
  by (simp add: select_decade_def)

lemma get_annual_climate_parameters_lerp:
  "get_annual_climate_parameters y name =
     (if y \<le> 2030
      then lerp baseline_2025 (anchor (scenario_table name) D2030) (real_of_int (y - 2025) / 5)
      else if y \<le> 2040
      then lerp (anchor (scenario_table name) D2030) (anchor (scenario_table name) D2040)
             (real_of_int (y - 2030) / 10)
      else lerp (anchor (scenario_table name) D2040) (anchor (scenario_table name) D2050)
             (real_of_int (y - 2040) / 10))"
  by (simp add: get_annual_climate_parameters_def select_decade_def lerp_def anchor_def
      baseline_2025_def interpolate_def interpolate_list_def Let_def)


subsection \<open>C6: decade selection and interpolation\<close>

text \<open>
  C6, as claimed, says that the target year is clamped to [2030, 2050], so that every year
  after 2050 returns the 2050 anchor values. The code clamps only the choice of the decade:
  for the year 2060 under RCP4.5 the interpolation factor is 2 and the temperature increase
  is 1.1 + (1.4 - 1.1) * 2 = 1.7, not the 2050 anchor 1.4.
\<close>

theorem C6_year_2060_not_clamped:
  "get_annual_climate_parameters 2060 ''RCP4.5'' \<noteq> anchor (scenario_table ''RCP4.5'') D2050"
  by (simp add: get_annual_climate_parameters_def select_decade_def scenario_table_known
      anchor_def interpolate_def RCP45_def by_decade_def Let_def)

text \<open>
  C6, amended: for every pathway name and every year, the parameters are the linear blend
  of two anchors on the fraction elapsed: from the zero-valued 2025 baseline to the 2030
  anchor for years up to 2030 (fraction (year - 2025) / 5), from the 2030 to the 2040
  anchor for years in (2030, 2040], and from the 2040 to the 2050 anchor for every later
  year (fraction (year - 2040) / 10, which exceeds 1 after 2050: the values are
  extrapolated, not clamped). At 2030, 2040 and 2050 the result is the anchor itself.
\<close>

theorem C6_piecewise_linear_unclamped:
  "get_annual_climate_parameters year name =
     (if year \<le> 2030
      then lerp baseline_2025 (anchor (scenario_table name) D2030) (real_of_int (year - 2025) / 5)
      else if year \<le> 2040
      then lerp (anchor (scenario_table name) D2030) (anchor (scenario_table name) D2040)
             (real_of_int (year - 2030) / 10)
      else lerp (anchor (scenario_table name) D2040) (anchor (scenario_table name) D2050)
             (real_of_int (year - 2040) / 10)) \<and>
   get_annual_climate_parameters 2030 name = anchor (scenario_table name) D2030 \<and>
   get_annual_climate_parameters 2040 name = anchor (scenario_table name) D2040 \<and>
   get_annual_climate_parameters 2050 name = anchor (scenario_table name) D2050"
proof -
  let ?s = "scenario_table name"
  have len: "\<And>d. length (precipitation_change_tbl ?s d) = 4"
    using precip_lengths[OF scenario_table_cases] .
  have l1: "lerp baseline_2025 (anchor ?s D2030) 1 = anchor ?s D2030"
    by (rule lerp_one) (simp add: baseline_2025_def anchor_def len)
  have l2: "lerp (anchor ?s D2030) (anchor ?s D2040) 1 = anchor ?s D2040"
    by (rule lerp_one) (simp add: anchor_def len)
  have l3: "lerp (anchor ?s D2040) (anchor ?s D2050) 1 = anchor ?s D2050"
    by (rule lerp_one) (simp add: anchor_def len)
  show ?thesis
    using l1 l2 l3 by (simp add: get_annual_climate_parameters_lerp)
qed

theorem C6_piecewise_linear_unclamped_witness:
  "temperature_increase (get_annual_climate_parameters 2027 ''RCP4.5'') = 8 / 25 \<and>
   temperature_increase (get_annual_climate_parameters 2035 ''RCP4.5'') = 19 / 20 \<and>
   temperature_increase (get_annual_climate_parameters 2060 ''RCP4.5'') = 17 / 10 \<and>
   get_annual_climate_parameters 2050 ''RCP4.5'' = anchor RCP45 D2050"
  using C6_piecewise_linear_unclamped [of 2027 "''RCP4.5''"]
        C6_piecewise_linear_unclamped [of 2035 "''RCP4.5''"]
        C6_piecewise_linear_unclamped [of 2060 "''RCP4.5''"]
  by (simp add: scenario_table_known lerp_def anchor_def baseline_2025_def RCP45_def by_decade_def)


subsection \<open>C7: exactness at 2030 and the midpoint 2035\<close>

text \<open>
  C7: for every known pathway (every key of \<open>self.scenarios\<close>), the parameters for the
  year 2030 are exactly the pathway's 2030 anchor values, and every parameter for the year
  2035 (each seasonal precipitation component included) lies strictly between its 2030
  and 2040 anchors whenever the two anchors differ.
\<close>

theorem C7_exact_at_2030_between_at_2035:
  "map_of scenarios name = Some s \<Longrightarrow>
     get_annual_climate_parameters 2030 name = anchor s D2030 \<and>
     params_strictly_between (anchor s D2030) (anchor s D2040)
       (get_annual_climate_parameters 2035 name)"
  apply (drule known_scenario_cases)
  apply (elim disjE conjE)
    apply (simp_all add: get_annual_climate_parameters_def select_decade_2035 select_decade_2030
      scenario_table_known anchor_def params_strictly_between_def interpolate_def
      interpolate_list_def strictly_between_half Let_def)
    apply (simp_all add: RCP45_def RCP85_def RCP26_def by_decade_def)
    apply (simp_all add: strictly_between_def less_Suc_eq numeral_eq_Suc nth_Cons' cong: conj_cong)
  done

theorem C7_exact_at_2030_between_at_2035_witness:
  "map_of scenarios ''RCP8.5'' = Some RCP85 \<and>
   get_annual_climate_parameters 2030 ''RCP8.5'' = anchor RCP85 D2030 \<and>
   temperature_increase (anchor RCP85 D2030) \<noteq> temperature_increase (anchor RCP85 D2040) \<and>
   min (temperature_increase (anchor RCP85 D2030)) (temperature_increase (anchor RCP85 D2040))
     < temperature_increase (get_annual_climate_parameters 2035 ''RCP8.5'') \<and>
   temperature_increase (get_annual_climate_parameters 2035 ''RCP8.5'')
     < max (temperature_increase (anchor RCP85 D2030)) (temperature_increase (anchor RCP85 D2040))"
proof -
  have h: "map_of scenarios ''RCP8.5'' = Some RCP85"
    by (simp add: scenarios_def)
  have ne: "temperature_increase (anchor RCP85 D2030) \<noteq> temperature_increase (anchor RCP85 D2040)"
    by (simp add: anchor_def RCP85_def by_decade_def)
  from C7_exact_at_2030_between_at_2035 [OF h] ne h show ?thesis
    by (simp add: params_strictly_between_def strictly_between_def)
qed


subsection \<open>C8: unknown pathway names\<close>






section \<open>Properties of hazard generation\<close>





lemma first_month_listed: "rv_discrete_rvs listed_draws [1 .. 12] ps g = (1, g)"
proof -
  have "[1 .. 12] = (1::int) # [2 .. 12]" by (simp add: upto_rec1)
  then show ?thesis by (simp add: listed_draws_def)
qed


subsection \<open>C4: the annual occurrence probability\<close>





subsection \<open>C2: reproducibility of the generated events\<close>

text \<open>
  C2 says that running the simulation twice with the same seed and the same inputs gives
  identical yearly outputs. \<open>generate_events\<close> takes no seed and no generator: its draws
  come from the process-wide generator, whose state is no input of the call. Run twice in
  a row on the same model, year and climate effects, with the generator about to hand out
  0.05 and then 0.5, the first call returns one flood event (0.05 < 1/10) and the second
  call, which starts from the state the first one left, returns none.
\<close>

theorem C2_rerun_gives_other_events:
  "fst (generate_events listed_draws flood_rp10 2030 None [0.05, 0.5]) \<noteq>
   fst (generate_events listed_draws flood_rp10 2030 None
          (snd (generate_events listed_draws flood_rp10 2030 None [0.05, 0.5])))"
proof -
  have a: "annual_prob 10 1 = Inr (1/10)"
    by (simp add: annual_prob_def)
  have u1: "\<And>u us. uniform_rvs listed_draws (u # us) = (u, us)"
    and gm: "\<And>a b g. gamma_rvs listed_draws a b g = (a * b, g)"
    by (simp_all add: listed_draws_def)
  obtain ev where r1:
    "generate_events listed_draws flood_rp10 2030 None [0.05, 0.5] = (Inr [ev], [0.5])"
    by (simp add: generate_events_def flood_rp10_def a u1 gm first_month_listed
        intensity_multiplier_def frequency_multiplier_def sample_month_from_profile_def
        add_hazard_specific_attributes_def Let_def)
  have r2: "generate_events listed_draws flood_rp10 2030 None [0.5] = (Inr [], [])"
    by (simp add: generate_events_def flood_rp10_def a u1 intensity_multiplier_def
        frequency_multiplier_def)
  show ?thesis
    unfolding r1 snd_conv r2 fst_conv by simp
qed


section \<open>Properties of the exposure model\<close>

lemma py_int_le: "0 \<le> x \<Longrightarrow> real_of_int (py_int x) \<le> x"
  by (simp add: py_int_def)









lemma buildings_within:
  assumes "0 \<le> T" "\<forall>x \<in> snd ` set bt. 0 \<le> x"
  shows "entries_within (map (\<lambda>(k, r). (k, py_int (T * r))) bt) (map (\<lambda>(k, r). (k, T * r)) bt)"
  unfolding entries_within_def list_all2_map1 list_all2_map2 list_all2_same
  using assms by (auto intro!: py_int_le)





subsection \<open>C9: exposure ratio ranges and exposed quantities\<close>






subsection \<open>C5: the building-type distribution under annual updates\<close>

lemma horizon_years:
  "[2025 .. 2050] = [2025, 2026, 2027, 2028, 2029, 2030, 2031, 2032, 2033, 2034, 2035,
     2036, 2037, 2038, 2039, 2040, 2041, 2042, 2043, 2044, 2045, 2046, 2047, 2048, 2049,
     (2050::int)]"
  by (simp add: upto_rec1)

lemma single_update_2100:
  "\<exists>m'. update_exposure (init_exposure_model level boundaries) 2100 = Inr m' \<and>
        building_types m' =
          [(''RCC'', 0.35), (''semi_pucca'', 0.1375), (''kutcha'', 0.3875), (''jhupri'', 0.1)] \<and>
        building_fraction_sum m' = 0.975"
  by (simp add: update_exposure_def init_exposure_model_def py_pow_int_def update_building_types_def
      update_critical_facilities_def update_economic_sectors_def dict_modify_def bind_err_def
      building_fraction_sum_def Let_def)

text \<open>
  C5 says that the building-type fractions sum to 1 and stay non-negative after every call
  of \<open>update_exposure\<close>, for every sequence of annual updates over the horizon. Starting
  from the state \<open>__init__\<close> sets up and calling \<open>update_exposure\<close> once for each year
  from 2025 to 2050, the fractions end as RCC 0.35, semi\_pucca -0.2375, kutcha 0.0125 and
  jhupri 0.10: their sum is 0.225 and one of them is negative. \<open>'RCC'\<close> is capped at 0.35
  while the two other types still lose half of the uncapped increase each, and the years
  passed are counted from 2025 at every call.
\<close>

theorem C5_fractions_after_horizon:
  "\<exists>m'. annual_updates (init_exposure_model level boundaries) [2025 .. 2050] = Inr m' \<and>
        building_types m' =
          [(''RCC'', 0.35), (''semi_pucca'', - 0.2375), (''kutcha'', 0.0125), (''jhupri'', 0.1)] \<and>
        building_fraction_sum m' = 0.225"
  unfolding horizon_years
  by (simp add: update_exposure_def init_exposure_model_def py_pow_int_def update_building_types_def
      update_critical_facilities_def update_economic_sectors_def dict_modify_def bind_err_def
      building_fraction_sum_def Let_def)


section \<open>Properties of the recovery model\<close>

lemma seasonal_nonneg: "0 \<le> dict_get seasonal_recovery_factors k 0"
  by (simp add: dict_get_def seasonal_recovery_factors_def)

lemma adjust_step_ok:
  assumes A: "traj_ok n A" and m: "0 \<le> mult"
    and inc: "0 < n \<Longrightarrow> base ! (n - 1) \<le> base ! n"
  shows "traj_ok (Suc n) (adjust_step base mult n A)"
proof (cases "n = 0")
  case True
  then have "A = []" using A by (simp add: traj_ok_def)
  then show ?thesis using True by (simp add: adjust_step_def traj_ok_def)
next
  case False
  define s where "s = dict_get seasonal_recovery_factors (((1 + n - 1) mod 12) + 1) 0"
  define v where "v = min 1 (last A + (base ! n - base ! (n - 1)) * mult * s)"
  have step: "adjust_step base mult n A = A @ [v]"
    using False by (simp add: adjust_step_def v_def s_def Let_def)
  have len: "length A = n" and ne: "A \<noteq> []" using A False by (auto simp: traj_ok_def)
  have lastA: "last A = A ! (n - 1)" using len ne by (simp add: last_conv_nth)
  have lb: "0 \<le> last A" "last A \<le> 1" using A False lastA by (simp_all add: traj_ok_def)
  have "0 \<le> (base ! n - base ! (n - 1)) * mult * s"
    using inc False m seasonal_nonneg[of "((1 + n - 1) mod 12) + 1"] by (simp add: s_def)
  then have v: "last A \<le> v" "v \<le> 1" "0 \<le> v" using lb by (simp_all add: v_def)
  have nth: "\<And>i. i < n \<Longrightarrow> (A @ [v]) ! i = A ! i" "(A @ [v]) ! n = v"
    using len by (simp_all add: nth_append)
  show ?thesis
    unfolding step traj_ok_def
  proof (intro conjI allI impI)
    show "length (A @ [v]) = Suc n" using len by simp
  next
    fix i assume "i < Suc n"
    then show "0 \<le> (A @ [v]) ! i" "(A @ [v]) ! i \<le> 1"
      using A v nth by (auto simp: traj_ok_def less_Suc_eq)
  next
    show "(A @ [v]) ! 0 = 0" using A False nth(1)[of 0] by (simp add: traj_ok_def)
  next
    fix i assume i: "Suc i < Suc n"
    show "(A @ [v]) ! i \<le> (A @ [v]) ! Suc i"
    proof (cases "Suc i = n")
      case True
      then have "i = n - 1" by simp
      then show ?thesis using True nth v lastA False by simp
    next
      case F: False
      then have "Suc i < n" using i by simp
      then show ?thesis using A nth by (simp add: traj_ok_def)
    qed
  qed
qed

lemma fold_adjust_ok:
  assumes m: "0 \<le> mult" and mono: "\<And>i. Suc i < length base \<Longrightarrow> base ! i \<le> base ! Suc i"
  shows "n \<le> length base \<Longrightarrow> traj_ok n (fold (adjust_step base mult) [0 ..< n] [])"
proof (induction n)
  case 0
  then show ?case by (simp add: traj_ok_def)
next
  case (Suc n)
  then have ih: "traj_ok n (fold (adjust_step base mult) [0 ..< n] [])" by simp
  have inc: "0 < n \<Longrightarrow> base ! (n - 1) \<le> base ! n"
    using mono[of "n - 1"] Suc.prems by simp
  show ?case
    using adjust_step_ok[OF ih m inc] by simp
qed


lemma recovery_pattern_mono:
  assumes h: "0 < h" and ij: "i \<le> j"
  shows "recovery_pattern name i h \<le> recovery_pattern name j h"
proof -
  have x: "real i / real_of_int h \<le> real j / real_of_int h" "0 \<le> real i / real_of_int h"
    using h ij by (simp_all add: divide_right_mono)
  have sq: "(real i / real_of_int h)\<^sup>2 \<le> (real j / real_of_int h)\<^sup>2"
    using x by (intro power_mono) simp_all
  have e: "exp (- 10 * (real j / real_of_int h - 0.5)) \<le> exp (- 10 * (real i / real_of_int h - 0.5))"
    using x by simp
  have sg: "1 / (1 + exp (- 10 * (real i / real_of_int h - 0.5)))
              \<le> 1 / (1 + exp (- 10 * (real j / real_of_int h - 0.5)))"
    by (rule divide_left_mono) (use e in \<open>simp_all add: add_pos_pos\<close>)
  show ?thesis
    using x sq sg by (simp add: recovery_pattern_def Let_def)
qed

lemma generate_sector_trajectory_ok:
  assumes m: "0 \<le> fm * gm * rm" and h: "0 < h"
  shows "traj_ok (nat (h + 1)) (generate_sector_trajectory sector h fm gm rm)"
proof -
  define base where "base = map (\<lambda>t. recovery_pattern (sector_pattern sector) t h) [0 ..< nat (h + 1)]"
  have len: "length base = nat (h + 1)" by (simp add: base_def)
  have mono: "\<And>i. Suc i < length base \<Longrightarrow> base ! i \<le> base ! Suc i"
    using h by (simp add: base_def recovery_pattern_mono)
  have "traj_ok (length base) (fold (adjust_step base (fm * gm * rm)) [0 ..< length base] [])"
    by (rule fold_adjust_ok[OF m mono]) simp_all
  then show ?thesis
    using h by (simp add: generate_sector_trajectory_def base_def Let_def)
qed

lemma traj_ok_le_last:
  assumes "traj_ok n A" "i < n"
  shows "A ! i \<le> last A"
proof -
  have len: "length A = n" and mono: "\<forall>i. Suc i < n \<longrightarrow> A ! i \<le> A ! Suc i"
    using assms(1) by (simp_all add: traj_ok_def)
  have "\<And>k. i + k < n \<Longrightarrow> A ! i \<le> A ! (i + k)"
  proof -
    fix k show "i + k < n \<Longrightarrow> A ! i \<le> A ! (i + k)"
    proof (induction k)
      case 0 then show ?case by simp
    next
      case (Suc k)
      then have "A ! i \<le> A ! (i + k)" by simp
      also have "A ! (i + k) \<le> A ! Suc (i + k)" using mono Suc.prems by simp
      finally show ?case by simp
    qed
  qed
  from this[of "n - 1 - i"] assms(2) have "A ! i \<le> A ! (n - 1)" by simp
  moreover have "last A = A ! (n - 1)" using len assms(2) by (cases A) (auto simp: last_conv_nth)
  ultimately show ?thesis by simp
qed

lemma apply_bbb_id:
  assumes ok: "traj_ok n A" and n: "0 < n" and b: "0 < bbb"
  shows "apply_bbb bbb A = Inr A"
proof -
  have len: "length A = n" using ok by (simp add: traj_ok_def)
  then have ne: "A \<noteq> []" using n by auto
  have "last A = A ! (n - 1)" using len ne by (simp add: last_conv_nth)
  then have l0: "0 \<le> last A" using ok n by (simp add: traj_ok_def)
  have "last A * 1 \<le> last A * (1 + bbb)"
    by (rule mult_left_mono) (use l0 b in simp_all)
  then have fin: "last A \<le> last A * (1 + bbb)" by simp
  have "map (\<lambda>val. min val (last A * (1 + bbb))) A = A"
  proof (rule nth_equalityI)
    show "length (map (\<lambda>val. min val (last A * (1 + bbb))) A) = length A" by simp
  next
    fix i assume "i < length (map (\<lambda>val. min val (last A * (1 + bbb))) A)"
    then have i: "i < n" using len by simp
    have "A ! i \<le> last A" using traj_ok_le_last[OF ok i] .
    then show "map (\<lambda>val. min val (last A * (1 + bbb))) A ! i = A ! i"
      using fin i len by (simp add: min_def)
  qed
  then show ?thesis using ne b by (simp add: apply_bbb_def Let_def)
qed

lemma apply_bbb_one: "0 < bbb \<Longrightarrow> apply_bbb bbb [1] = Inr [1]"
  by (simp add: apply_bbb_def Let_def min_def)

lemma apply_bbb_neg_horizon:
  "0 < bbb \<Longrightarrow> h < 0 \<Longrightarrow> apply_bbb bbb (generate_sector_trajectory sector h fm gm rm) = Inl IndexError"
  by (simp add: apply_bbb_def generate_sector_trajectory_def)

lemma table_item_pos:
  assumes "table_item tbl k1 k2 = Inr v" "\<forall>t \<in> snd ` set tbl. \<forall>x \<in> snd ` set t. 0 < x"
  shows "0 < v"
proof -
  obtain t where t: "map_of tbl k1 = Some t" and v: "map_of t k2 = Some v"
    using assms(1) by (auto simp: table_item_def dict_item_def bind_err_def split: option.splits)
  have "t \<in> snd ` set tbl" using t by (metis map_of_SomeD image_eqI snd_conv)
  moreover have "v \<in> snd ` set t" using v by (metis map_of_SomeD image_eqI snd_conv)
  ultimately show ?thesis using assms(2) by blast
qed

lemma governance_multiplier_pos:
  assumes "governance_multiplier g = Inr v" shows "0 < v"
proof -
  have tp: "\<forall>t \<in> snd ` set governance_recovery_factors. \<forall>x \<in> snd ` set t. (0::real) < x"
    by (simp add: governance_recovery_factors_def)
  from assms obtain c p k e where
    "table_item governance_recovery_factors ''coordination''
       (case coordination g of None \<Rightarrow> ''fair'' | Some v \<Rightarrow> v) = Inr c"
    "table_item governance_recovery_factors ''planning_capacity''
       (case planning_capacity g of None \<Rightarrow> ''medium'' | Some v \<Rightarrow> v) = Inr p"
    "table_item governance_recovery_factors ''corruption_level''
       (case corruption_level g of None \<Rightarrow> ''medium'' | Some v \<Rightarrow> v) = Inr k"
    "table_item governance_recovery_factors ''community_engagement''
       (case community_engagement g of None \<Rightarrow> ''medium'' | Some v \<Rightarrow> v) = Inr e"
    and v: "v = c * 0.3 + p * 0.3 + k * 0.2 + e * 0.2"
    unfolding governance_multiplier_def bind_err_def by (auto split: sum.splits)
  then have "0 < c" "0 < p" "0 < k" "0 < e"
    using table_item_pos tp by blast+
  then show ?thesis using v by (simp add: add_pos_pos)
qed

lemma bbb_improvement_pos:
  assumes "bbb_improvement_of f = Inr v" shows "0 < v"
proof -
  have tp: "\<forall>t \<in> snd ` set build_back_better_effectiveness. \<forall>x \<in> snd ` set t. (0::real) < x"
    by (simp add: build_back_better_effectiveness_def)
  from assms obtain p a t where
    "table_item build_back_better_effectiveness ''policy_strength''
       (case bbb_policy_strength f of None \<Rightarrow> ''moderate'' | Some v \<Rightarrow> v) = Inr p"
    "table_item build_back_better_effectiveness ''funding_allocation''
       (case bbb_funding_allocation f of None \<Rightarrow> ''medium'' | Some v \<Rightarrow> v) = Inr a"
    "table_item build_back_better_effectiveness ''technical_capacity''
       (case bbb_technical_capacity f of None \<Rightarrow> ''adequate'' | Some v \<Rightarrow> v) = Inr t"
    and v: "v = p * a * t"
    unfolding bbb_improvement_of_def bind_err_def by (auto split: sum.splits)
  then have "0 < p" "0 < a" "0 < t"
    using table_item_pos tp by blast+
  then show ?thesis using v by simp
qed

lemma funding_mult_pos:
  assumes "dict_item funding_level_multipliers k = Inr v" shows "0 < v"
  using assms
  by (auto simp: dict_item_def funding_level_multipliers_def split: if_splits)

lemma regional_multiplier_pos: "0 < regional_multiplier impacts"
  by (simp add: regional_multiplier_def regional_recovery_factors_def dict_get_def Let_def)


lemma sector_trajectories_ok:
  assumes m: "0 \<le> fm * gm * rm" and b: "0 < bbb"
  shows "sector_trajectories hs fm gm rm bbb = Inr trajs \<Longrightarrow>
         list_all2 (\<lambda>(s, traj) (s', h). s = s' \<and> sector_trajectory_ok bbb h traj) trajs hs"
proof (induction hs arbitrary: trajs)
  case Nil
  then show ?case by simp
next
  case (Cons sh hs)
  obtain sector h where sh: "sh = (sector, h)" by (cases sh)
  from Cons.prems obtain traj rest where
    t: "apply_bbb bbb (generate_sector_trajectory sector h fm gm rm) = Inr traj"
    and r: "sector_trajectories hs fm gm rm bbb = Inr rest"
    and tr: "trajs = (sector, traj) # rest"
    unfolding sh by (auto simp: bind_err_def split: sum.splits)
  have ok: "sector_trajectory_ok bbb h traj"
  proof -
    consider "h = 0" | "0 < h" | "h < 0" by linarith
    then show ?thesis
    proof cases
      case 1
      then have "traj = [1]"
        using t b by (simp add: generate_sector_trajectory_def apply_bbb_one)
      then show ?thesis
        using 1 b by (simp add: sector_trajectory_ok_def non_decreasing_def)
    next
      case 2
      let ?n = "nat (h + 1)"
      have g: "traj_ok ?n (generate_sector_trajectory sector h fm gm rm)"
        by (rule generate_sector_trajectory_ok[OF m 2])
      have n: "0 < ?n" using 2 by simp
      have eq: "traj = generate_sector_trajectory sector h fm gm rm"
        using apply_bbb_id[OF g n b] t by simp
      have tk: "traj_ok ?n traj" using g eq by simp
      then have len: "length traj = ?n" by (simp add: traj_ok_def)
      then have ne: "traj \<noteq> []" using n by auto
      have "last traj = traj ! (?n - 1)" using len ne by (simp add: last_conv_nth)
      then have l1: "last traj \<le> 1" using tk n by (simp add: traj_ok_def)
      have hd0: "hd traj = 0" using tk n ne by (simp add: traj_ok_def hd_conv_nth)
      have nd: "non_decreasing traj" using tk by (simp add: traj_ok_def non_decreasing_def)
      show ?thesis
        using ne nd l1 hd0 b 2 by (simp add: sector_trajectory_ok_def)
    next
      case 3
      then show ?thesis using t apply_bbb_neg_horizon[OF b 3] by simp
    qed
  qed
  show ?case
    using ok Cons.IH[OF r] by (simp add: tr sh)
qed

lemma horizons_economic_losses_only:
  "calculate_recovery_horizons economic_losses_only =
     Inr [(''housing'', 0), (''infrastructure'', 0), (''livelihoods'', 9), (''social'', 0)]"
  by (simp add: calculate_recovery_horizons_def economic_losses_only_def housing_horizon_def
      infrastructure_horizon_def livelihoods_horizon_def social_horizon_def horizon_from_rate_def
      dict_get_def bind_err_def py_int_def Let_def)

lemma simulate_economic_losses_only:
  "simulate_recovery economic_losses_only no_governance_info no_funding_info =
     Inr \<lparr> recovery_trajectories =
             [(''housing'', [1]), (''infrastructure'', [1]),
              (''livelihoods'', generate_sector_trajectory ''livelihoods'' 9 1 (19/20) (9/10)),
              (''social'', [1])],
           recovery_horizon_months =
             [(''housing'', 0), (''infrastructure'', 0), (''livelihoods'', 9), (''social'', 0)],
           funding_ratio = 7/10, bbb_improvement = 1/25, total_funding_needs = 1750,
           available_funding = 1225 \<rparr>"
proof -
  have n: "estimate_funding_needs economic_losses_only = 1750"
    by (simp add: estimate_funding_needs_def economic_losses_only_def dict_get_def)
  have a: "available_funds no_funding_info 1750 = 1225"
    by (simp add: available_funds_def no_funding_info_def)
  have ra: "funding_ratio_of 1225 1750 = Inr (7/10)"
    by (simp add: funding_ratio_of_def)
  have fl: "dict_item funding_level_multipliers (funding_level (7/10)) = Inr 1"
    by (simp add: funding_level_def funding_level_multipliers_def dict_item_def)
  have g: "governance_multiplier no_governance_info = Inr (19/20)"
    by (simp add: governance_multiplier_def no_governance_info_def table_item_def dict_item_def
        governance_recovery_factors_def bind_err_def)
  have rg: "regional_multiplier economic_losses_only = 9/10"
    by (simp add: regional_multiplier_def economic_losses_only_def regional_recovery_factors_def
        dict_get_def)
  have b: "bbb_improvement_of no_funding_info = Inr (1/25)"
    by (simp add: bbb_improvement_of_def no_funding_info_def table_item_def dict_item_def
        build_back_better_effectiveness_def bind_err_def)
  have l: "apply_bbb (1/25) (generate_sector_trajectory ''livelihoods'' 9 1 (19/20) (9/10))
           = Inr (generate_sector_trajectory ''livelihoods'' 9 1 (19/20) (9/10))"
    by (rule apply_bbb_id[OF generate_sector_trajectory_ok]) simp_all
  have z: "\<And>s. generate_sector_trajectory s 0 1 (19/20) (9/10) = [1]"
    by (simp add: generate_sector_trajectory_def)
  have o: "apply_bbb (1/25) [1] = Inr [1]"
    by (rule apply_bbb_one) simp
  show ?thesis
    unfolding simulate_recovery_def horizons_economic_losses_only n
    by (simp add: Let_def a bind_err_def ra fl g rg b l z o)
qed




subsection \<open>C3: recovery trajectories\<close>

text \<open>
  C3, as claimed, says that every sector trajectory, also that of a sector whose horizon is
  zero, starts at 0. With economic losses only, the housing sector has the horizon 0 and
  its trajectory is the single value 1.0.
\<close>

theorem C3_zero_horizon_starts_at_1:
  "trajectory_of (simulate_recovery economic_losses_only no_governance_info no_funding_info)
     ''housing'' = Some [1]"
  by (simp add: simulate_economic_losses_only trajectory_of_def)



text \<open>
  C3, amended: in every result of \<open>simulate_recovery\<close>, the trajectory of every sector is
  non-decreasing and its last element is at most 1 + bbb\_improvement (indeed at most 1);
  the trajectory of a sector with a non-zero horizon starts at 0, and the trajectory of a
  sector with the horizon 0 is the single value 1.0.
\<close>

theorem C3_trajectories_monotone_bounded:
  assumes "simulate_recovery impacts governance funding = Inr r"
  shows "list_all2 (\<lambda>(s, traj) (s', h). s = s' \<and> sector_trajectory_ok (bbb_improvement r) h traj)
           (recovery_trajectories r) (recovery_horizon_months r)"
proof -
  from assms obtain hs ratio fm gm bbb trajs where
    hs: "calculate_recovery_horizons impacts = Inr hs"
    and fm: "dict_item funding_level_multipliers (funding_level ratio) = Inr fm"
    and gm: "governance_multiplier governance = Inr gm"
    and bbb: "bbb_improvement_of funding = Inr bbb"
    and tr: "sector_trajectories hs fm gm (regional_multiplier impacts) bbb = Inr trajs"
    and r: "recovery_trajectories r = trajs" "recovery_horizon_months r = hs" "bbb_improvement r = bbb"
    unfolding simulate_recovery_def bind_err_def Let_def
    by (auto split: sum.splits)
  have "0 < fm" "0 < gm" "0 < regional_multiplier impacts" "0 < bbb"
    using funding_mult_pos[OF fm] governance_multiplier_pos[OF gm] regional_multiplier_pos
      bbb_improvement_pos[OF bbb] by simp_all
  then have m: "0 \<le> fm * gm * regional_multiplier impacts" and b: "0 < bbb" by simp_all
  show ?thesis
    using sector_trajectories_ok[OF m b tr] by (simp add: r)
qed

theorem C3_trajectories_monotone_bounded_witness:
  "simulate_recovery economic_losses_only no_governance_info no_funding_info =
     Inr \<lparr> recovery_trajectories =
             [(''housing'', [1]), (''infrastructure'', [1]),
              (''livelihoods'', generate_sector_trajectory ''livelihoods'' 9 1 (19/20) (9/10)),
              (''social'', [1])],
           recovery_horizon_months =
             [(''housing'', 0), (''infrastructure'', 0), (''livelihoods'', 9), (''social'', 0)],
           funding_ratio = 7/10, bbb_improvement = 1/25, total_funding_needs = 1750,
           available_funding = 1225 \<rparr> \<and>
   hd (generate_sector_trajectory ''livelihoods'' 9 1 (19/20) (9/10)) = 0 \<and>
   last (generate_sector_trajectory ''livelihoods'' 9 1 (19/20) (9/10)) \<le> 1 + 1/25"
  using C3_trajectories_monotone_bounded [OF simulate_economic_losses_only] simulate_economic_losses_only
  by (simp add: sector_trajectory_ok_def)


subsection \<open>C10: zero funding needs\<close>





section \<open>Properties of the damage calculation\<close>
















subsection \<open>C1: casualties and the exposed population\<close>






end
